theory Spec2Isabelle
  imports Complex_Main "HOL-Library.Sublist"
begin

section \<open>JavaScript strings\<close>

text \<open>
  A JavaScript string is a sequence of UTF-16 code units. The site's text is
  Vietnamese, so the code units are kept as numbers; an ASCII literal of the
  source is written \<open>ascii ''...''\<close>.
\<close>

type_synonym jstring = "nat list"

definition ascii :: "string \<Rightarrow> jstring" where
  "ascii s = map of_char s"

text \<open>\<open>s.startsWith(p)\<close> and \<open>s.includes(p)\<close>.\<close>

fun startsWith :: "'a list \<Rightarrow> 'a list \<Rightarrow> bool" where
  "startsWith s [] = True"
| "startsWith [] (p # ps) = False"
| "startsWith (c # cs) (p # ps) = (c = p \<and> startsWith cs ps)"

fun str_includes :: "'a list \<Rightarrow> 'a list \<Rightarrow> bool" where
  "str_includes [] p = (p = [])"
| "str_includes (c # cs) p = (startsWith (c # cs) p \<or> str_includes cs p)"

text \<open>\<open>s.indexOf(p)\<close>: the first position where \<open>p\<close> occurs, or \<open>-1\<close>.\<close>

fun indexOf :: "'a list \<Rightarrow> 'a list \<Rightarrow> int" where
  "indexOf [] p = (if p = [] then 0 else - 1)"
| "indexOf (c # cs) p =
     (if startsWith (c # cs) p then 0
      else (let i = indexOf cs p in if i < 0 then - 1 else i + 1))"

text \<open>
  \<open>s.substring(a, b)\<close>: both indices are clamped to \<open>[0, length]\<close> and swapped
  when \<open>a > b\<close>.
\<close>

definition substring :: "'a list \<Rightarrow> int \<Rightarrow> int \<Rightarrow> 'a list" where
  "substring s a b =
     (let n = int (length s);
          a' = max 0 (min a n);
          b' = max 0 (min b n);
          lo = min a' b';
          hi = max a' b'
      in take (nat (hi - lo)) (drop (nat lo) s))"

text \<open>
  The decimal rendering of a non-negative integer, as a template literal
  \<open>`${n}`\<close> produces it (below \<open>10^21\<close>, where JavaScript switches to the
  exponent notation).
\<close>

fun decimal :: "nat \<Rightarrow> jstring" where
  "decimal n = (if n < 10 then [48 + n] else decimal (n div 10) @ [48 + n mod 10])"

declare decimal.simps [simp del]

section \<open>Data model (types)\<close>

text \<open>
  \<open>Violation\<close>: the parser builds it as a \<open>Partial<Violation>\<close> and casts, and
  the history rows are read back with \<open>JSON.parse\<close>, so every field may be
  missing.
\<close>

record Violation =
  plate :: "jstring option"
  violationNumber :: "nat option"
  plateColor :: "jstring option"
  vehicleType :: "jstring option"
  violationTime :: "jstring option"
  location :: "jstring option"
  violation :: "jstring option"
  status :: "jstring option"
  resolutionPlace :: "jstring option"
  resolutionDepartment :: "jstring option"
  resolutionAddress :: "jstring option"
  resolutionPhone :: "jstring option"
  fine :: "jstring option"
  message :: "jstring option"
  rawPreview :: "jstring option"

text \<open>The empty object \<open>{}\<close>.\<close>

definition emptyViolation :: Violation where
  "emptyViolation =
     \<lparr>plate = None, violationNumber = None, plateColor = None, vehicleType = None,
      violationTime = None, location = None, violation = None, status = None,
      resolutionPlace = None, resolutionDepartment = None, resolutionAddress = None,
      resolutionPhone = None, fine = None, message = None, rawPreview = None\<rparr>"

datatype lookup_status = StatusOk | StatusError

record LookupData =
  data_plate :: jstring
  data_vehicleType :: jstring
  data_captcha :: "jstring option"
  data_violations :: "Violation list option"
  data_totalViolations :: "nat option"
  data_totalPaidViolations :: "nat option"
  data_totalUnpaidViolations :: "nat option"
  data_lookupTime :: "jstring option"
  data_source :: "jstring option"
  data_totalRetryCaptcha :: "nat option"

record LookupResult =
  res_status :: lookup_status
  res_message :: "jstring option"
  res_data :: "LookupData option"

record LookupOptions =
  captchaText :: "jstring option"
  saveCaptcha :: "bool option"

text \<open>
  A thrown value. Every \<open>throw\<close> of the lookup path throws an \<open>Error\<close>; the
  ones axios rejects with also carry the HTTP status of the response (when
  there was one) and a \<open>code\<close> such as \<open>ECONNABORTED\<close>.
\<close>

record thrown =
  err_message :: jstring
  err_status :: "nat option"
  err_code :: "jstring option"

definition Error :: "jstring \<Rightarrow> thrown" where
  "Error m = \<lparr>err_message = m, err_status = None, err_code = None\<rparr>"

section \<open>Execution and diff service (cronJobExecutionService.ts)\<close>

text \<open>\<open>x || ''\<close> on an optional number inside a template literal, and on an
  optional string.\<close>

definition num_or_empty :: "nat option \<Rightarrow> jstring" where
  "num_or_empty x = (case x of None \<Rightarrow> [] | Some n \<Rightarrow> if n = 0 then [] else decimal n)"

definition str_or_empty :: "jstring option \<Rightarrow> jstring" where
  "str_or_empty x = (case x of None \<Rightarrow> [] | Some s \<Rightarrow> s)"

text \<open>
  \<^verbatim>\<open>return `${violation.violationNumber || ''}-${violation.violationTime || ''}`;\<close>
\<close>

definition getViolationKey :: "Violation \<Rightarrow> jstring" where
  "getViolationKey v =
     num_or_empty (violationNumber v) @ ascii ''-'' @ str_or_empty (violationTime v)"

text \<open>\<open>new Map(entries)\<close> (a later entry replaces an earlier one with the
  same key) and \<open>map.has(k)\<close>.\<close>

definition Map_new :: "('k \<times> 'v) list \<Rightarrow> ('k \<rightharpoonup> 'v)" where
  "Map_new entries = fold (\<lambda>(k, v) m. m(k \<mapsto> v)) entries Map.empty"

definition Map_has :: "('k \<rightharpoonup> 'v) \<Rightarrow> 'k \<Rightarrow> bool" where
  "Map_has m k = (m k \<noteq> None)"

record Comparison =
  hasChanges :: bool
  newViolations :: "Violation list"
  removedViolations :: "Violation list"

definition compareViolations :: "Violation list \<Rightarrow> Violation list \<Rightarrow> Comparison" where
  "compareViolations previous current =
     (let previousMap = Map_new (map (\<lambda>v. (getViolationKey v, v)) previous);
          currentMap = Map_new (map (\<lambda>v. (getViolationKey v, v)) current);
          new = filter (\<lambda>v. \<not> Map_has previousMap (getViolationKey v)) current;
          removed = filter (\<lambda>v. \<not> Map_has currentMap (getViolationKey v)) previous
      in \<lparr>hasChanges = (length new > 0 \<or> length removed > 0),
          newViolations = new,
          removedViolations = removed\<rparr>)"

record CronJobComparisonResult = Comparison +
  totalViolations :: nat
  totalPaidViolations :: nat
  totalUnpaidViolations :: nat

text \<open>One row of the \<open>lookupHistory\<close> table, as the comparison reads it: the
  violations are stored as a JSON string.\<close>

record LookupHistory =
  hist_cronJobId :: nat
  hist_violations :: jstring
  hist_hasNewViolations :: bool

record 'a DatabaseResult =
  success :: bool
  data :: "'a option"
  error :: "jstring option"

text \<open>
  \<open>DatabaseManager.getLatestLookupHistory\<close>. The prepared statement
  (\<open>SELECT ... ORDER BY lookupTime DESC LIMIT 1\<close>) is the parameter \<open>stmt_get\<close>:
  it gives the latest row of a job, no row, or throws.
\<close>

definition getLatestLookupHistory ::
  "(nat \<Rightarrow> thrown + LookupHistory option) \<Rightarrow> nat \<Rightarrow> LookupHistory DatabaseResult" where
  "getLatestLookupHistory stmt_get cronJobId =
     (case stmt_get cronJobId of
        Inl e \<Rightarrow> \<lparr>success = False, data = None, error = Some (err_message e)\<rparr>
      | Inr None \<Rightarrow>
          \<lparr>success = False, data = None, error = Some (ascii ''No lookup history found'')\<rparr>
      | Inr (Some row) \<Rightarrow> \<lparr>success = True, data = Some row, error = None\<rparr>)"

text \<open>\<open>currentResult.data?.violations || []\<close> and \<open>currentResult.data?.total... || 0\<close>.\<close>

definition violations_or_empty :: "LookupResult \<Rightarrow> Violation list" where
  "violations_or_empty r =
     (case res_data r of None \<Rightarrow> []
      | Some d \<Rightarrow> (case data_violations d of None \<Rightarrow> [] | Some vs \<Rightarrow> vs))"

definition count_or_zero :: "(LookupData \<Rightarrow> nat option) \<Rightarrow> LookupResult \<Rightarrow> nat" where
  "count_or_zero field r =
     (case res_data r of None \<Rightarrow> 0
      | Some d \<Rightarrow> (case field d of None \<Rightarrow> 0 | Some n \<Rightarrow> n))"

text \<open>The result of the first-run branch and of the \<open>catch\<close> branch.\<close>

definition allNew :: "LookupResult \<Rightarrow> CronJobComparisonResult" where
  "allNew currentResult =
     \<lparr>hasChanges = True,
      newViolations = violations_or_empty currentResult,
      removedViolations = [],
      totalViolations = count_or_zero data_totalViolations currentResult,
      totalPaidViolations = count_or_zero data_totalPaidViolations currentResult,
      totalUnpaidViolations = count_or_zero data_totalUnpaidViolations currentResult\<rparr>"

text \<open>
  \<open>compareWithPreviousLookup\<close>. \<open>JSON_parse\<close> is the runtime's \<open>JSON.parse\<close>
  at the type of a violation list (\<open>Inl\<close> when it throws); a throw is caught
  and gives the same result as a first run.
\<close>

definition compareWithPreviousLookup ::
  "(nat \<Rightarrow> thrown + LookupHistory option) \<Rightarrow> (jstring \<Rightarrow> thrown + Violation list) \<Rightarrow>
   nat \<Rightarrow> LookupResult \<Rightarrow> CronJobComparisonResult" where
  "compareWithPreviousLookup stmt_get JSON_parse cronJobId currentResult =
     (let historyResult = getLatestLookupHistory stmt_get cronJobId
      in if \<not> success historyResult then allNew currentResult
         else (case data historyResult of
                 None \<Rightarrow> allNew currentResult
               | Some previousHistory \<Rightarrow>
                   (case JSON_parse (hist_violations previousHistory) of
                      Inl e \<Rightarrow> allNew currentResult
                    | Inr previousViolations \<Rightarrow>
                        (let currentViolations = violations_or_empty currentResult;
                             comparison = compareViolations previousViolations currentViolations
                         in \<lparr>hasChanges = hasChanges comparison,
                             newViolations = newViolations comparison,
                             removedViolations = removedViolations comparison,
                             totalViolations = count_or_zero data_totalViolations currentResult,
                             totalPaidViolations =
                               count_or_zero data_totalPaidViolations currentResult,
                             totalUnpaidViolations =
                               count_or_zero data_totalUnpaidViolations currentResult\<rparr>))))"

text \<open>How the key reads an optional number: \<open>0\<close> and a missing number both
  render as the empty string.\<close>

definition number_read :: "nat option \<Rightarrow> nat" where
  "number_read x = (case x of None \<Rightarrow> 0 | Some n \<Rightarrow> n)"

section \<open>More string operations of the runtime\<close>

text \<open>
  The white space of \<open>String.prototype.trim\<close> and of the regular expression
  class \<open>\s\<close> (the same set of code units).
\<close>

definition isSpace :: "nat \<Rightarrow> bool" where
  "isSpace c =
     ((9 \<le> c \<and> c \<le> 13) \<or> c = 32 \<or> c = 160 \<or> c = 5760 \<or> (8192 \<le> c \<and> c \<le> 8202)
      \<or> c = 8232 \<or> c = 8233 \<or> c = 8239 \<or> c = 8287 \<or> c = 12288 \<or> c = 65279)"

definition trim :: "jstring \<Rightarrow> jstring" where
  "trim s = rev (dropWhile isSpace (rev (dropWhile isSpace s)))"

text \<open>\<open>s.replace(p, r)\<close> with a string pattern: the first occurrence only.\<close>

fun replace_first :: "'a list \<Rightarrow> 'a list \<Rightarrow> 'a list \<Rightarrow> 'a list" where
  "replace_first [] p r = (if p = [] then r else [])"
| "replace_first (c # cs) p r =
     (if startsWith (c # cs) p then r @ drop (length p) (c # cs)
      else c # replace_first cs p r)"

text \<open>
  \<open>toLowerCase\<close> and \<open>toUpperCase\<close> on the repertoire of Vietnamese text:
  Basic Latin, Latin-1 (where the upper case of the sharp s is \<open>SS\<close>, that of
  the y with diaeresis is U+0178 and that of the micro sign is U+039C), the
  Vietnamese letters of Latin Extended-A and -B (A-breve, D-stroke, I-tilde,
  U-tilde, O-horn, U-horn) and the block U+1EA0..U+1EF9, where the capital is
  the even code unit and the small letter the next one. The runtime's mapping
  of code units outside this repertoire is not modelled: they are left as they
  are.
\<close>

definition lower_unit :: "nat \<Rightarrow> nat" where
  "lower_unit c =
     (if 65 \<le> c \<and> c \<le> 90 then c + 32
      else if 192 \<le> c \<and> c \<le> 222 \<and> c \<noteq> 215 then c + 32
      else if c = 258 \<or> c = 272 \<or> c = 296 \<or> c = 360 \<or> c = 416 then c + 1
      else if c = 431 then 432
      else if 7840 \<le> c \<and> c \<le> 7929 \<and> even c then c + 1
      else c)"

definition upper_unit :: "nat \<Rightarrow> nat" where
  "upper_unit c =
     (if 97 \<le> c \<and> c \<le> 122 then c - 32
      else if 224 \<le> c \<and> c \<le> 254 \<and> c \<noteq> 247 then c - 32
      else if c = 259 \<or> c = 273 \<or> c = 297 \<or> c = 361 \<or> c = 417 then c - 1
      else if c = 432 then 431
      else if 7840 \<le> c \<and> c \<le> 7929 \<and> odd c then c - 1
      else c)"

definition toLowerCase :: "jstring \<Rightarrow> jstring" where
  "toLowerCase s = map lower_unit s"

definition upper_units :: "nat \<Rightarrow> jstring" where
  "upper_units c =
     (if c = 223 then [83, 83]
      else if c = 255 then [376]
      else if c = 181 then [924]
      else [upper_unit c])"

definition toUpperCase :: "jstring \<Rightarrow> jstring" where
  "toUpperCase s = concat (map upper_units s)"

section \<open>The Vietnamese literals of the source\<close>

definition lit_bien_kiem_soat :: jstring where
  \<comment> \<open>B i U+1EC3 n SP k i U+1EC3 m SP s o U+00E1 t\<close>
  "lit_bien_kiem_soat = [66, 105, 7875, 110, 32, 107, 105, 7875, 109, 32, 115, 111, 225, 116]"

definition lit_mau_bien :: jstring where
  \<comment> \<open>M U+00E0 u SP b i U+1EC3 n\<close>
  "lit_mau_bien = [77, 224, 117, 32, 98, 105, 7875, 110]"

definition lit_loai_phuong_tien :: jstring where
  \<comment> \<open>L o U+1EA1 i SP p h U+01B0 U+01A1 n g SP t i U+1EC7 n\<close>
  "lit_loai_phuong_tien = [76, 111, 7841, 105, 32, 112, 104, 432, 417, 110, 103, 32, 116, 105, 7879, 110]"

definition lit_thoi_gian_vi_pham :: jstring where
  \<comment> \<open>T h U+1EDD i SP g i a n SP v i SP p h U+1EA1 m\<close>
  "lit_thoi_gian_vi_pham = [84, 104, 7901, 105, 32, 103, 105, 97, 110, 32, 118, 105, 32, 112, 104, 7841, 109]"

definition lit_dia_diem_vi_pham :: jstring where
  \<comment> \<open>U+0110 U+1ECB a SP U+0111 i U+1EC3 m SP v i SP p h U+1EA1 m\<close>
  "lit_dia_diem_vi_pham = [272, 7883, 97, 32, 273, 105, 7875, 109, 32, 118, 105, 32, 112, 104, 7841, 109]"

definition lit_hanh_vi_vi_pham :: jstring where
  \<comment> \<open>H U+00E0 n h SP v i SP v i SP p h U+1EA1 m\<close>
  "lit_hanh_vi_vi_pham = [72, 224, 110, 104, 32, 118, 105, 32, 118, 105, 32, 112, 104, 7841, 109]"

definition lit_trang_thai :: jstring where
  \<comment> \<open>T r U+1EA1 n g SP t h U+00E1 i\<close>
  "lit_trang_thai = [84, 114, 7841, 110, 103, 32, 116, 104, 225, 105]"

definition lit_noi_giai_quyet :: jstring where
  \<comment> \<open>N U+01A1 i SP g i U+1EA3 i SP q u y U+1EBF t\<close>
  "lit_noi_giai_quyet = [78, 417, 105, 32, 103, 105, 7843, 105, 32, 113, 117, 121, 7871, 116]"

definition lit_doi_csgt :: jstring where
  \<comment> \<open>U+0110 U+1ED9 i SP C S G T\<close>
  "lit_doi_csgt = [272, 7897, 105, 32, 67, 83, 71, 84]"

definition lit_dia_chi :: jstring where
  \<comment> \<open>U+0110 U+1ECB a SP c h U+1EC9 :\<close>
  "lit_dia_chi = [272, 7883, 97, 32, 99, 104, 7881, 58]"

definition lit_so_dien_thoai :: jstring where
  \<comment> \<open>S U+1ED1 SP U+0111 i U+1EC7 n SP t h o U+1EA1 i\<close>
  "lit_so_dien_thoai = [83, 7889, 32, 273, 105, 7879, 110, 32, 116, 104, 111, 7841, 105]"

definition lit_so_dien_thoai_lien_he :: jstring where
  \<comment> \<open>S U+1ED1 SP U+0111 i U+1EC7 n SP t h o U+1EA1 i SP l i U+00EA n SP h U+1EC7 :\<close>
  "lit_so_dien_thoai_lien_he = [83, 7889, 32, 273, 105, 7879, 110, 32, 116, 104, 111, 7841, 105, 32, 108, 105, 234, 110, 32, 104, 7879, 58]"

definition lit_da_xu_phat :: jstring where
  \<comment> \<open>U+0111 U+00E3 SP x U+1EED SP p h U+1EA1 t\<close>
  "lit_da_xu_phat = [273, 227, 32, 120, 7917, 32, 112, 104, 7841, 116]"

definition lit_da_nop :: jstring where
  \<comment> \<open>U+0111 U+00E3 SP n U+1ED9 p\<close>
  "lit_da_nop = [273, 227, 32, 110, 7897, 112]"

definition lit_chua_xu_phat :: jstring where
  \<comment> \<open>c h U+01B0 a SP x U+1EED SP p h U+1EA1 t\<close>
  "lit_chua_xu_phat = [99, 104, 432, 97, 32, 120, 7917, 32, 112, 104, 7841, 116]"

definition lit_chua_nop :: jstring where
  \<comment> \<open>c h U+01B0 a SP n U+1ED9 p\<close>
  "lit_chua_nop = [99, 104, 432, 97, 32, 110, 7897, 112]"


definition status_Chua_nop_phat :: jstring where
  \<comment> \<open>C h U+01B0 a SP n U+1ED9 p SP p h U+1EA1 t\<close>
  "status_Chua_nop_phat = [67, 104, 432, 97, 32, 110, 7897, 112, 32, 112, 104, 7841, 116]"

section \<open>Result extractor (utils/htmlParser.ts)\<close>

text \<open>
  One \<open>.form-group\<close> element as the loop reads it: its trimmed text, the
  trimmed text of its \<open>label\<close> and the trimmed text of its \<open>.col-md-9\<close>.
\<close>

record FormGroup =
  fg_text :: jstring
  fg_label :: jstring
  fg_value :: jstring

text \<open>The loop variables of \<open>formGroups.each\<close>.\<close>

record parse_state =
  ps_violations :: "Violation list"
  ps_currentViolation :: Violation
  ps_violationCount :: nat

text \<open>\<open>Object.keys(v).length > 0\<close>: some field has been assigned.\<close>

definition hasKeys :: "Violation \<Rightarrow> bool" where
  "hasKeys v = (v \<noteq> emptyViolation)"

definition parse_step :: "parse_state \<Rightarrow> FormGroup \<Rightarrow> parse_state" where
  "parse_step st el =
     (let text = fg_text el; label = fg_label el; value = fg_value el;
          cur = ps_currentViolation st
      in if str_includes label lit_bien_kiem_soat then
           st\<lparr>ps_violations :=
                (if hasKeys cur then ps_violations st @ [cur] else ps_violations st),
              ps_currentViolation :=
                emptyViolation\<lparr>plate := Some value,
                  violationNumber := Some (ps_violationCount st + 1)\<rparr>,
              ps_violationCount := ps_violationCount st + 1\<rparr>
         else if str_includes label lit_mau_bien then
           st\<lparr>ps_currentViolation := cur\<lparr>plateColor := Some value\<rparr>\<rparr>
         else if str_includes label lit_loai_phuong_tien then
           st\<lparr>ps_currentViolation := cur\<lparr>vehicleType := Some value\<rparr>\<rparr>
         else if str_includes label lit_thoi_gian_vi_pham then
           st\<lparr>ps_currentViolation := cur\<lparr>violationTime := Some value\<rparr>\<rparr>
         else if str_includes label lit_dia_diem_vi_pham then
           st\<lparr>ps_currentViolation := cur\<lparr>location := Some value\<rparr>\<rparr>
         else if str_includes label lit_hanh_vi_vi_pham then
           st\<lparr>ps_currentViolation := cur\<lparr>violation := Some value\<rparr>\<rparr>
         else if str_includes label lit_trang_thai then
           st\<lparr>ps_currentViolation := cur\<lparr>status := Some value\<rparr>\<rparr>
         else if str_includes label lit_noi_giai_quyet then
           st\<lparr>ps_currentViolation := cur\<lparr>resolutionPlace := Some value\<rparr>\<rparr>
         else if text \<noteq> [] \<and> label = [] \<and> str_includes text lit_doi_csgt then
           st\<lparr>ps_currentViolation := cur\<lparr>resolutionDepartment := Some text\<rparr>\<rparr>
         else if text \<noteq> [] \<and> label = [] \<and> str_includes text lit_dia_chi then
           st\<lparr>ps_currentViolation :=
                cur\<lparr>resolutionAddress := Some (trim (replace_first text lit_dia_chi []))\<rparr>\<rparr>
         else if text \<noteq> [] \<and> label = [] \<and> str_includes text lit_so_dien_thoai then
           st\<lparr>ps_currentViolation :=
                cur\<lparr>resolutionPhone :=
                  Some (trim (replace_first text lit_so_dien_thoai_lien_he []))\<rparr>\<rparr>
         else st)"

text \<open>
  The first part of \<open>parseResultHtml\<close>: the records found in the container
  \<open>#bodyPrint123, #bodyPrint\<close>. The selection itself is cheerio's; its result
  is the argument: \<open>None\<close> when no container matches, otherwise the
  \<open>.form-group\<close> elements inside, in document order.
\<close>

definition parseContainer :: "FormGroup list option \<Rightarrow> Violation list" where
  "parseContainer bodyPrint =
     (case bodyPrint of
        None \<Rightarrow> []
      | Some formGroups \<Rightarrow>
          (let st = foldl parse_step
                      \<lparr>ps_violations = [], ps_currentViolation = emptyViolation,
                       ps_violationCount = 0\<rparr> formGroups
           in if hasKeys (ps_currentViolation st)
              then ps_violations st @ [ps_currentViolation st]
              else ps_violations st))"

text \<open>The record the fallback pushes.\<close>

definition fallbackViolation :: "jstring \<Rightarrow> Violation" where
  "fallbackViolation html =
     emptyViolation
       \<lparr>plate := Some [],
        violationNumber := Some 0,
        message :=
          Some (ascii ''Violation found - need to parse HTML structure in more detail''),
        rawPreview :=
          Some (substring html (indexOf html lit_bien_kiem_soat)
                  (indexOf html lit_bien_kiem_soat + 500))\<rparr>"

text \<open>\<open>parseResultHtml\<close>; \<open>select\<close> is the cheerio selection described above.\<close>

definition parseResultHtml :: "(jstring \<Rightarrow> FormGroup list option) \<Rightarrow> jstring \<Rightarrow> Violation list" where
  "parseResultHtml select html =
     (let violations = parseContainer (select html)
      in if length violations = 0 then
           (if str_includes html lit_doi_csgt then violations @ [fallbackViolation html]
            else violations)
         else violations)"

record ViolationCounts =
  cnt_totalPaidViolations :: nat
  cnt_totalUnpaidViolations :: nat

definition isPaid :: "jstring option \<Rightarrow> bool" where
  "isPaid st =
     (case st of
        None \<Rightarrow> False
      | Some s0 \<Rightarrow>
          if s0 = [] then False
          else (let s = toLowerCase s0
                in str_includes s lit_da_xu_phat \<or> str_includes s lit_da_nop
                   \<or> str_includes s (ascii ''paid'') \<or> str_includes s (ascii ''processed'')
                   \<or> str_includes s (ascii ''resolved'')))"

definition isUnpaid :: "jstring option \<Rightarrow> bool" where
  "isUnpaid st =
     (case st of
        None \<Rightarrow> False
      | Some s0 \<Rightarrow>
          if s0 = [] then False
          else (let s = toLowerCase s0
                in str_includes s lit_chua_xu_phat \<or> str_includes s lit_chua_nop
                   \<or> str_includes s (ascii ''not'') \<or> str_includes s (ascii ''unpaid'')
                   \<or> str_includes s (ascii ''not yet'')))"

definition calculateViolationCounts :: "Violation list \<Rightarrow> ViolationCounts" where
  "calculateViolationCounts violations =
     \<lparr>cnt_totalPaidViolations =
        foldl (\<lambda>acc v. acc + (if isPaid (status v) then 1 else 0)) 0 violations,
      cnt_totalUnpaidViolations =
        foldl (\<lambda>acc v. acc + (if isUnpaid (status v) then 1 else 0)) 0 violations\<rparr>"



section \<open>Captcha-solving adapter (utils/captchaSolver.ts)\<close>

text \<open>What the adapter writes to the console.\<close>

datatype log_entry =
    WarnLowConfidence real
  | WarnUnusualLength nat
  | LogError jstring

text \<open>The table \<open>corrections\<close>, with \<open>corrections[char] || char\<close>.\<close>

definition correction :: "nat \<Rightarrow> nat" where
  "correction c =
     (if c = of_char CHR ''0'' then of_char CHR ''O''
      else if c = of_char CHR ''1'' then of_char CHR ''l''
      else if c = of_char CHR ''5'' then of_char CHR ''S''
      else if c = of_char CHR ''6'' then of_char CHR ''G''
      else if c = of_char CHR ''8'' then of_char CHR ''B''
      else if c = of_char CHR ''l'' then of_char CHR ''1''
      else if c = of_char CHR ''O'' then of_char CHR ''0''
      else if c = of_char CHR ''S'' then of_char CHR ''5''
      else if c = of_char CHR ''G'' then of_char CHR ''6''
      else if c = of_char CHR ''B'' then of_char CHR ''8''
      else c)"

text \<open>
  \<open>solveWithTesseract\<close>. The OCR engine is the parameter \<open>recognize\<close>: for an
  image it gives a text and a confidence between 0 and 100, or throws. The
  result is the returned text (or the \<open>Error\<close> thrown) together with the console
  output; nothing else reaches the caller. An error thrown inside the \<open>try\<close>
  block, the one for an empty text included, is caught and wrapped.
\<close>

definition solveWithTesseract ::
  "(jstring \<Rightarrow> thrown + jstring \<times> real) \<Rightarrow> jstring \<Rightarrow> jstring \<Rightarrow>
   (thrown + jstring) \<times> log_entry list" where
  "solveWithTesseract recognize imageBuffer contentType =
     (case recognize imageBuffer of
        Inl e \<Rightarrow>
          (Inl (Error (ascii ''Tesseract OCR failed: '' @ err_message e)),
           [LogError (err_message e)])
      | Inr (text, confidence) \<Rightarrow>
          (let cleanedText = filter (\<lambda>c. \<not> isSpace c) (trim text)
           in if cleanedText = [] then
                (Inl (Error (ascii ''Tesseract OCR failed: '' @
                   ascii ''Tesseract OCR failed to extract text from captcha image'')),
                 [LogError (ascii ''Tesseract OCR failed to extract text from captcha image'')])
              else
                (let low = (if confidence < 30 then [WarnLowConfidence confidence] else []);
                     unusual =
                       (if length cleanedText < 3 \<or> length cleanedText > 10
                        then [WarnUnusualLength (length cleanedText)] else []);
                     correctedText =
                       (if confidence < 50 then map correction cleanedText else cleanedText)
                 in (Inr correctedText, low @ unusual))))"

datatype CaptchaMethod = Tesseract | Autocaptcha

record request =
  req_post :: bool
  req_url :: jstring
  req_form :: "(jstring \<times> jstring) list"
  req_cookies :: "(jstring \<times> jstring) list"

text \<open>
  An axios response as the repository reads it: its content type,
  \<open>resp.data\<close> as bytes or text, and for the AJAX call whether
  \<open>resp.data.success\<close> is \<open>'true'\<close> or \<open>true\<close>, \<open>resp.data.href\<close> and
  \<open>JSON.stringify(resp.data)\<close>.
\<close>

record reply =
  rp_contentType :: "jstring option"
  rp_data :: jstring
  rp_success :: bool
  rp_href :: "jstring option"
  rp_json :: jstring

text \<open>
  A \<open>Set-Cookie\<close> header of a response, parsed: the cookie's name and value
  and its \<open>Path\<close> attribute when it has one.
\<close>

record set_cookie =
  sc_name :: jstring
  sc_value :: jstring
  sc_path :: "jstring option"

text \<open>
  What the lookup path takes from its surroundings.

  \<^item> The target site: for the request number \<open>k\<close> (from 0) of a client it gives
    what axios resolves or rejects with, and the \<open>Set-Cookie\<close> headers of the
    response (none when there was no response).
  \<^item> The cookie jar library (tough-cookie behind axios-cookiejar-support), over
    a type \<open>'j\<close> of jars: the new jar, the cookies (name and value) a jar gives
    for a request to a URL, and the jar after a \<open>Set-Cookie\<close> header received
    from a URL is stored. Which cookies match which URL, what replaces what,
    and what expires is the library's business.
  \<^item> The OCR engine, the paid solving service (\<open>solveWithAutocaptcha\<close> as a
    whole), the configured default method, the cheerio selection of the result
    page, and the clock.
\<close>

record 'j env =
  env_site :: "nat \<Rightarrow> request \<Rightarrow> (thrown + reply) \<times> set_cookie list"
  env_newJar :: 'j
  env_getCookies :: "'j \<Rightarrow> jstring \<Rightarrow> (jstring \<times> jstring) list"
  env_setCookie :: "'j \<Rightarrow> jstring \<Rightarrow> set_cookie \<Rightarrow> 'j"
  env_recognize :: "jstring \<Rightarrow> thrown + jstring \<times> real"
  env_autocaptcha :: "jstring \<Rightarrow> jstring \<Rightarrow> thrown + jstring"
  env_defaultMethod :: CaptchaMethod
  env_select :: "jstring \<Rightarrow> FormGroup list option"
  env_now :: jstring

text \<open>\<open>solveCaptcha\<close> of utils/captchaSolver.ts: one method per call, no fallback.\<close>

definition solveCaptcha :: "'j env \<Rightarrow> jstring \<Rightarrow> jstring \<Rightarrow> CaptchaMethod option \<Rightarrow> thrown + jstring" where
  "solveCaptcha e imageBuffer contentType method =
     (let captchaMethod = (case method of None \<Rightarrow> env_defaultMethod e | Some m \<Rightarrow> m)
      in case captchaMethod of
           Tesseract \<Rightarrow> fst (solveWithTesseract (env_recognize e) imageBuffer contentType)
         | Autocaptcha \<Rightarrow> env_autocaptcha e imageBuffer contentType)"

section \<open>Site session client (utils/httpClient.ts, repositories/violationRepository.ts)\<close>

definition csgt_baseUrl :: jstring where
  "csgt_baseUrl = ascii ''https://www.csgt.vn''"

definition csgt_lookupUrl :: jstring where
  "csgt_lookupUrl = ascii ''https://www.csgt.vn/tra-cuu-phuong-tien-vi-pham.html''"

definition csgt_captchaEndpoint :: jstring where
  "csgt_captchaEndpoint = ascii ''https://www.csgt.vn/lib/captcha/captcha.class.php''"

definition csgt_ajaxValidateUrl :: jstring where
  "csgt_ajaxValidateUrl = ascii ''https://www.csgt.vn/?mod=contact&task=tracuu_post&ajax''"

text \<open>
  The axios instance with its cookie jar. \<open>sent\<close> is the list of the requests
  made through it so far, each with the cookies it carried: the network as the
  site sees it.
\<close>

record 'j client =
  jar :: 'j
  sent :: "request list"

text \<open>\<open>createHttpClient\<close>: a new jar, wrapped into a new axios instance.\<close>

definition createHttpClient :: "'j env \<Rightarrow> 'j client" where
  "createHttpClient e = \<lparr>jar = env_newJar e, sent = []\<rparr>"

text \<open>
  One call through the client, as axios with the cookie-jar wrapper makes it:
  the request carries the cookies the jar gives for its URL, the site answers
  (its answer may depend on how many requests came before), and every
  \<open>Set-Cookie\<close> header of the response, of a rejected one too, is stored in the
  jar for that URL. A call is one exchange: redirects that axios would follow
  inside it are not modelled.
\<close>

definition http_request ::
  "'j env \<Rightarrow> bool \<Rightarrow> jstring \<Rightarrow> (jstring \<times> jstring) list \<Rightarrow> 'j client \<Rightarrow>
   (thrown + reply) \<times> 'j client" where
  "http_request e post url form c =
     (let req = \<lparr>req_post = post, req_url = url, req_form = form,
                 req_cookies = env_getCookies e (jar c) url\<rparr>
      in case env_site e (length (sent c)) req of
           (outcome, headers) \<Rightarrow>
             (outcome,
              \<lparr>jar = foldl (\<lambda>j h. env_setCookie e j url h) (jar c) headers,
               sent = sent c @ [req]\<rparr>))"

definition createFormData :: "jstring \<Rightarrow> jstring \<Rightarrow> jstring \<Rightarrow> (jstring \<times> jstring) list" where
  "createFormData plate' vehicleType' captchaText' =
     [(ascii ''BienKS'', plate' @ ascii '' ''),
      (ascii ''Xe'', vehicleType'),
      (ascii ''captcha'', captchaText'),
      (ascii ''ipClient'', ascii ''9.9.9.91''),
      (ascii ''cUrl'', ascii ''1'')]"

definition initSession :: "'j env \<Rightarrow> 'j client \<Rightarrow> (thrown + unit) \<times> 'j client" where
  "initSession e c =
     (case http_request e False csgt_baseUrl [] c of
        (Inl err, c') \<Rightarrow> (Inl err, c')
      | (Inr rp, c') \<Rightarrow> (Inr (), c'))"

definition fetchCaptchaImage :: "'j env \<Rightarrow> 'j client \<Rightarrow> (thrown + jstring \<times> jstring) \<times> 'j client" where
  "fetchCaptchaImage e c =
     (case http_request e False csgt_captchaEndpoint [] c of
        (Inl err, c') \<Rightarrow> (Inl err, c')
      | (Inr rp, c') \<Rightarrow>
          (Inr (rp_data rp,
                (case rp_contentType rp of
                   None \<Rightarrow> ascii ''image/png''
                 | Some t \<Rightarrow> if t = [] then ascii ''image/png'' else t)), c'))"

text \<open>\<open>ViolationRepository.solveCaptcha\<close>: a manual captcha, when there is one
  (and it is not the empty string), is returned as it is.\<close>

definition repo_solveCaptcha ::
  "'j env \<Rightarrow> jstring \<Rightarrow> jstring \<Rightarrow> jstring option \<Rightarrow> CaptchaMethod option \<Rightarrow> thrown + jstring" where
  "repo_solveCaptcha e imageBuffer contentType manualCaptcha method =
     (if manualCaptcha \<noteq> None \<and> manualCaptcha \<noteq> Some [] then Inr (the manualCaptcha)
      else
        (let captchaMethod = (case method of None \<Rightarrow> env_defaultMethod e | Some m \<Rightarrow> m)
         in solveCaptcha e imageBuffer contentType (Some captchaMethod)))"

text \<open>The \<open>catch\<close> blocks of \<open>validateCaptchaAjax\<close> and \<open>fetchLookupResult\<close>.\<close>

definition classify :: "thrown \<Rightarrow> thrown" where
  "classify err =
     (if err_status err = Some 404 then
        Error (ascii
          ''Website endpoint may have changed or session expired. Please try again.'')
      else if err_status err = Some 403 then
        Error (ascii ''Access forbidden. Possible rate limiting.'')
      else if (case err_status err of None \<Rightarrow> False | Some st \<Rightarrow> st \<ge> 500) then
        Error (decimal (the (err_status err)) @
          ascii '' - Server error. Please try again later.'')
      else if err_code err = Some (ascii ''ECONNABORTED'')
              \<or> err_code err = Some (ascii ''ETIMEDOUT'') then
        Error (ascii ''Timeout - Server is slow to respond. Please try again.'')
      else err)"

definition validateCaptchaAjax ::
  "'j env \<Rightarrow> jstring \<Rightarrow> jstring \<Rightarrow> jstring \<Rightarrow> 'j client \<Rightarrow> (thrown + reply) \<times> 'j client" where
  "validateCaptchaAjax e plate' vehicleType' captchaText' c =
     (case http_request e True csgt_ajaxValidateUrl
             (createFormData plate' vehicleType' captchaText') c of
        (Inl err, c') \<Rightarrow> (Inl (classify err), c')
      | (Inr rp, c') \<Rightarrow>
          if \<not> rp_success rp then
            (let responseData = rp_json rp;
                 err =
                   (if str_includes responseData (ascii ''404'') then
                      Error (ascii
                        ''Website endpoint may have changed or session expired. Please try again.'')
                    else if str_includes responseData (ascii ''403'') then
                      Error (ascii ''Access forbidden. Possible rate limiting.'')
                    else Error (ascii ''Captcha validation failed: '' @ responseData))
             in (Inl (classify err), c'))
          else (Inr rp, c'))"

definition fetchLookupResult :: "'j env \<Rightarrow> jstring option \<Rightarrow> 'j client \<Rightarrow> (thrown + jstring) \<times> 'j client" where
  "fetchLookupResult e redirectUrl c =
     (let url = (case redirectUrl of
                   None \<Rightarrow> csgt_lookupUrl
                 | Some u \<Rightarrow> if u = [] then csgt_lookupUrl else u)
      in case http_request e False url [] c of
           (Inl err, c') \<Rightarrow> (Inl (classify err), c')
         | (Inr rp, c') \<Rightarrow> (Inr (rp_data rp), c'))"

text \<open>Steps 1 to 3 of \<open>lookupViolations\<close>: the session and the captcha text.\<close>

definition obtainCaptcha ::
  "'j env \<Rightarrow> LookupOptions \<Rightarrow> bool \<Rightarrow> 'j client \<Rightarrow> (thrown + jstring) \<times> 'j client" where
  "obtainCaptcha e options forceRefreshCaptcha c1 =
     (if forceRefreshCaptcha \<or> captchaText options = None \<or> captchaText options = Some [] then
        (case fetchCaptchaImage e c1 of
           (Inl err, c2) \<Rightarrow> (Inl err, c2)
         | (Inr (buffer, contentType), c2) \<Rightarrow>
             (repo_solveCaptcha e buffer contentType (captchaText options) None, c2))
      else (Inr (the (captchaText options)), c1))"

definition lookupViolations ::
  "'j env \<Rightarrow> jstring \<Rightarrow> jstring \<Rightarrow> LookupOptions \<Rightarrow> bool \<Rightarrow> 'j client \<Rightarrow>
   (thrown + LookupResult) \<times> 'j client" where
  "lookupViolations e plate' vehicleType' options forceRefreshCaptcha c =
     (case initSession e c of
        (Inl err, c1) \<Rightarrow> (Inl err, c1)
      | (Inr u, c1) \<Rightarrow>
     (case obtainCaptcha e options forceRefreshCaptcha c1 of
        (Inl err, c2) \<Rightarrow> (Inl err, c2)
      | (Inr captchaText', c2) \<Rightarrow>
     (case validateCaptchaAjax e plate' vehicleType' captchaText' c2 of
        (Inl err, c3) \<Rightarrow> (Inl err, c3)
      | (Inr ajaxResp, c3) \<Rightarrow>
     (case fetchLookupResult e (rp_href ajaxResp) c3 of
        (Inl err, c4) \<Rightarrow> (Inl err, c4)
      | (Inr htmlResponse, c4) \<Rightarrow>
          (let violations = parseResultHtml (env_select e) htmlResponse;
               counts = calculateViolationCounts violations
           in (Inr \<lparr>res_status = StatusOk, res_message = None,
                    res_data = Some
                      \<lparr>data_plate = plate', data_vehicleType = vehicleType',
                       data_captcha = Some captchaText',
                       data_violations = Some violations,
                       data_totalViolations = Some (length violations),
                       data_totalPaidViolations = Some (cnt_totalPaidViolations counts),
                       data_totalUnpaidViolations = Some (cnt_totalUnpaidViolations counts),
                       data_lookupTime = None, data_source = None,
                       data_totalRetryCaptcha = None\<rparr>\<rparr>, c4))))))"

section \<open>Lookup pipeline and retry orchestrator (services/violationService.ts)\<close>

text \<open>
  The service calls \<open>this.violationRepository.lookupViolations\<close>; the
  repository is a parameter here, with the state it works on, so that the
  retry loop can be run on the repository above and on a stub.
\<close>

type_synonym 's repo =
  "jstring \<Rightarrow> jstring \<Rightarrow> LookupOptions \<Rightarrow> bool \<Rightarrow> 's \<Rightarrow> (thrown + LookupResult) \<times> 's"

definition isRetryableError :: "thrown \<Rightarrow> bool" where
  "isRetryableError err =
     (let message' = err_message err
      in str_includes message' (ascii ''Captcha validation failed'')
         \<or> str_includes message' (ascii ''404'')
         \<or> str_includes message' (ascii ''403'')
         \<or> str_includes message' (ascii ''500'')
         \<or> str_includes message' (ascii ''502'')
         \<or> str_includes message' (ascii ''503'')
         \<or> str_includes message' (ascii ''504'')
         \<or> str_includes message' (ascii ''Timeout'')
         \<or> str_includes message' (ascii ''Server error'')
         \<or> str_includes message' (ascii ''ECONNABORTED'')
         \<or> str_includes message' (ascii ''ETIMEDOUT''))"

text \<open>The test that guards \<open>options.captchaText = undefined; totalRetryCaptcha++\<close>.\<close>

definition clearsCaptcha :: "thrown \<Rightarrow> bool" where
  "clearsCaptcha err =
     (let errorMsg = err_message err
      in str_includes errorMsg (ascii ''Captcha validation failed'')
         \<or> str_includes errorMsg (ascii ''404'')
         \<or> str_includes errorMsg (ascii ''403'')
         \<or> str_includes errorMsg (ascii ''Timeout'')
         \<or> str_includes errorMsg (ascii ''Server error''))"

text \<open>
  The variables of \<open>lookupWithRetry\<close>: \<open>lastError\<close>, \<open>totalRetryCaptcha\<close>, the
  caller's \<open>options\<close> object (the loop assigns to its field), and the waits
  made so far, in milliseconds.
\<close>

record retry_vars =
  lastError :: "thrown option"
  totalRetryCaptcha :: nat
  options_now :: LookupOptions
  waits :: "nat list"

text \<open>The statement after the loop.\<close>

definition errorResult :: "jstring \<Rightarrow> jstring \<Rightarrow> retry_vars \<Rightarrow> LookupResult" where
  "errorResult plate' vehicleType' rv =
     \<lparr>res_status = StatusError,
      res_message =
        Some (case lastError rv of
                None \<Rightarrow> ascii ''Unknown error occurred''
              | Some err \<Rightarrow>
                  if err_message err = [] then ascii ''Unknown error occurred''
                  else err_message err),
      res_data = Some
        \<lparr>data_plate = plate', data_vehicleType = vehicleType', data_captcha = None,
         data_violations = None, data_totalViolations = None,
         data_totalPaidViolations = None, data_totalUnpaidViolations = None,
         data_lookupTime = None, data_source = None,
         data_totalRetryCaptcha = Some (totalRetryCaptcha rv)\<rparr>\<rparr>"

text \<open>\<open>if (result.status === 'ok' && result.data) result.data.totalRetryCaptcha = ...\<close>\<close>

definition attachRetryCount :: "nat \<Rightarrow> LookupResult \<Rightarrow> LookupResult" where
  "attachRetryCount n result =
     (case res_data result of
        None \<Rightarrow> result
      | Some d \<Rightarrow>
          if res_status result = StatusOk
          then result\<lparr>res_data := Some (d\<lparr>data_totalRetryCaptcha := Some n\<rparr>)\<rparr>
          else result)"

text \<open>
  The \<open>for\<close> loop of \<open>lookupWithRetry\<close>, from the iteration \<open>attempt\<close> on. It
  returns the result, the final loop variables and the final state of the
  repository.
\<close>

function retry_loop ::
  "'s repo \<Rightarrow> jstring \<Rightarrow> jstring \<Rightarrow> nat \<Rightarrow> nat \<Rightarrow> retry_vars \<Rightarrow> 's \<Rightarrow>
   LookupResult \<times> retry_vars \<times> 's" where
  "retry_loop repo plate' vehicleType' maxRetries attempt rv s =
     (if attempt \<le> maxRetries + 1 then
        (let forceRefreshCaptcha = (attempt > 1)
         in case repo plate' vehicleType' (options_now rv) forceRefreshCaptcha s of
              (Inr result, s') \<Rightarrow> (attachRetryCount (totalRetryCaptcha rv) result, rv, s')
            | (Inl err, s') \<Rightarrow>
                (let rv1 = rv\<lparr>lastError := Some err\<rparr>
                 in if \<not> isRetryableError err \<or> attempt > maxRetries then
                      (errorResult plate' vehicleType' rv1, rv1, s')
                    else
                      (let rv2 = rv1\<lparr>waits := waits rv1 @ [attempt * 2000]\<rparr>;
                           rv3 =
                             (if clearsCaptcha err then
                                rv2\<lparr>options_now := (options_now rv2)\<lparr>captchaText := None\<rparr>,
                                    totalRetryCaptcha := totalRetryCaptcha rv2 + 1\<rparr>
                              else rv2)
                       in retry_loop repo plate' vehicleType' maxRetries (attempt + 1) rv3 s')))
      else (errorResult plate' vehicleType' rv, rv, s))"
  by pat_completeness auto
termination
  by (relation "measure (\<lambda>(repo, p, v, maxRetries, attempt, rv, s). maxRetries + 1 - attempt)")
    auto

declare retry_loop.simps [simp del]

definition lookupWithRetry ::
  "'s repo \<Rightarrow> jstring \<Rightarrow> jstring \<Rightarrow> LookupOptions \<Rightarrow> nat \<Rightarrow> 's \<Rightarrow>
   LookupResult \<times> retry_vars \<times> 's" where
  "lookupWithRetry repo plate' vehicleType' options maxRetries s =
     retry_loop repo plate' vehicleType' maxRetries 1
       \<lparr>lastError = None, totalRetryCaptcha = 0, options_now = options, waits = []\<rparr> s"

definition validVehicleTypes :: "jstring list" where
  "validVehicleTypes = [ascii ''1'', ascii ''2'', ascii ''3'']"

text \<open>
  \<open>lookupByPlate\<close>, with \<open>maxRetries\<close> at its default 5. It throws on invalid
  input; \<open>now\<close> is \<open>new Date().toISOString()\<close>.
\<close>

definition lookupByPlate ::
  "'s repo \<Rightarrow> jstring \<Rightarrow> jstring \<Rightarrow> jstring \<Rightarrow> LookupOptions \<Rightarrow> 's \<Rightarrow>
   (thrown + LookupResult \<times> retry_vars) \<times> 's" where
  "lookupByPlate repo now plate' vehicleType' options s =
     (if plate' = [] \<or> vehicleType' = [] then
        (Inl (Error (ascii ''Plate and vehicleType are required'')), s)
      else if vehicleType' \<notin> set validVehicleTypes then
        (Inl (Error (ascii
           ''Invalid vehicle type. Must be 1 (Car), 2 (Motorcycle), or 3 (Electric bicycle)'')),
         s)
      else
        (let cleanPlate = toUpperCase (filter (\<lambda>c. \<not> (isSpace c \<or> c = 45)) plate')
         in case lookupWithRetry repo cleanPlate vehicleType' options 5 s of
              (result, rv, s') \<Rightarrow>
                (Inr (case res_data result of
                        None \<Rightarrow> result
                      | Some d \<Rightarrow>
                          if res_status result = StatusOk
                          then result\<lparr>res_data := Some
                                 (d\<lparr>data_lookupTime := Some now,
                                    data_source := Some (ascii ''csgt.vn'')\<rparr>)\<rparr>
                          else result,
                      rv), s')))"

text \<open>
  A \<open>ViolationService\<close> owns one \<open>ViolationRepository\<close>, which owns the client
  made in its constructor; the service's state is that client.
\<close>

definition newViolationService :: "'j env \<Rightarrow> 'j client" where
  "newViolationService e = createHttpClient e"

definition service_lookupByPlate ::
  "'j env \<Rightarrow> jstring \<Rightarrow> jstring \<Rightarrow> LookupOptions \<Rightarrow> 'j client \<Rightarrow>
   (thrown + LookupResult \<times> retry_vars) \<times> 'j client" where
  "service_lookupByPlate e plate' vehicleType' options c =
     lookupByPlate (lookupViolations e) (env_now e) plate' vehicleType' options c"

text \<open>
  A repository stub that fails every call: the state counts the calls, and the
  call number \<open>k\<close> (from 0) throws \<open>errs k\<close>.
\<close>

definition failingRepo :: "(nat \<Rightarrow> thrown) \<Rightarrow> nat repo" where
  "failingRepo errs plate' vehicleType' options forceRefreshCaptcha k = (Inl (errs k), Suc k)"

text \<open>The error the repository throws for an HTTP status of 500 or more.\<close>

definition serverError :: "nat \<Rightarrow> thrown" where
  "serverError st = Error (decimal st @ ascii '' - Server error. Please try again later.'')"

section \<open>A cookie jar\<close>

text \<open>
  The sample runs below need a jar. This one follows RFC 6265, which the jar
  library implements, for cookies that carry no attribute but \<open>Path\<close>: a
  cookie belongs to the host that set it, its path is the \<open>Path\<close> attribute or
  else the default path of the request, a cookie replaces the one with the
  same host, path and name in its place, and a request gets the cookies of its
  host whose path matches, longer paths first.
\<close>

text \<open>Host and path of a URL \<open>scheme://host/path?query#fragment\<close>.\<close>

definition url_rest :: "jstring \<Rightarrow> jstring" where
  "url_rest url =
     (let i = indexOf url (ascii ''://'') in if i < 0 then url else drop (nat i + 3) url)"

definition url_host :: "jstring \<Rightarrow> jstring" where
  "url_host url = takeWhile (\<lambda>c. c \<noteq> 47 \<and> c \<noteq> 63 \<and> c \<noteq> 35) (url_rest url)"

definition url_path :: "jstring \<Rightarrow> jstring" where
  "url_path url =
     (let p = takeWhile (\<lambda>c. c \<noteq> 63 \<and> c \<noteq> 35)
                (dropWhile (\<lambda>c. c \<noteq> 47 \<and> c \<noteq> 63 \<and> c \<noteq> 35) (url_rest url))
      in if p = [] then [47] else p)"

text \<open>The default path of a request path: up to, not including, its last
  slash; \<open>/\<close> when that is empty.\<close>

definition default_path :: "jstring \<Rightarrow> jstring" where
  "default_path p =
     (if p = [] \<or> hd p \<noteq> 47 then [47]
      else (let cut = rev (tl (dropWhile (\<lambda>c. c \<noteq> 47) (rev p)))
            in if cut = [] then [47] else cut))"

definition path_match :: "jstring \<Rightarrow> jstring \<Rightarrow> bool" where
  "path_match cookiePath requestPath =
     (cookiePath = requestPath
      \<or> (startsWith requestPath cookiePath
         \<and> ((cookiePath \<noteq> [] \<and> last cookiePath = 47)
            \<or> (length cookiePath < length requestPath
               \<and> requestPath ! length cookiePath = 47))))"

record stored_cookie =
  ck_host :: jstring
  ck_path :: jstring
  ck_name :: jstring
  ck_value :: jstring

definition same_cookie :: "stored_cookie \<Rightarrow> stored_cookie \<Rightarrow> bool" where
  "same_cookie c d =
     (ck_host c = ck_host d \<and> ck_path c = ck_path d \<and> ck_name c = ck_name d)"

definition jar_setCookie :: "stored_cookie list \<Rightarrow> jstring \<Rightarrow> set_cookie \<Rightarrow> stored_cookie list" where
  "jar_setCookie j url h =
     (let c = \<lparr>ck_host = url_host url,
               ck_path =
                 (case sc_path h of
                    None \<Rightarrow> default_path (url_path url)
                  | Some p \<Rightarrow>
                      if p = [] \<or> hd p \<noteq> 47 then default_path (url_path url) else p),
               ck_name = sc_name h, ck_value = sc_value h\<rparr>
      in if list_ex (same_cookie c) j
         then map (\<lambda>d. if same_cookie c d then c else d) j
         else j @ [c])"

definition jar_getCookies :: "stored_cookie list \<Rightarrow> jstring \<Rightarrow> (jstring \<times> jstring) list" where
  "jar_getCookies j url =
     map (\<lambda>c. (ck_name c, ck_value c))
       (sort_key (\<lambda>c. - int (length (ck_path c)))
          (filter (\<lambda>c. ck_host c = url_host url \<and> path_match (ck_path c) (url_path url)) j))"

section \<open>Sample data\<close>

definition sampleViolation :: Violation where
  "sampleViolation =
     emptyViolation
       \<lparr>plate := Some (ascii ''51K-671.79''),
        violationNumber := Some 1,
        violationTime := Some (ascii ''10:30, 01/02/2024''),
        location := Some (ascii ''QL1A - Km 12''),
        violation := Some (ascii ''16824.6.9.b.01'')\<rparr>"


definition unpaidViolation :: Violation where
  "unpaidViolation =
     sampleViolation\<lparr>violationNumber := Some 2, status := Some status_Chua_nop_phat\<rparr>"


text \<open>A page without the container \<open>#bodyPrint123, #bodyPrint\<close>.\<close>

definition noContainer :: "jstring \<Rightarrow> FormGroup list option" where
  "noContainer html = None"

text \<open>A plain successful response of the site, and the OCR engine's answer.\<close>

definition okReply :: reply where
  "okReply =
     \<lparr>rp_contentType = Some (ascii ''image/png''),
      rp_data = ascii ''<html></html>'', rp_success = True, rp_href = None,
      rp_json = ascii ''{}''\<rparr>"

definition sampleOcr :: "jstring \<Rightarrow> thrown + jstring \<times> real" where
  "sampleOcr img = Inr (ascii ''wxyz'', 90)"

definition sampleAutocaptcha :: "jstring \<Rightarrow> jstring \<Rightarrow> thrown + jstring" where
  "sampleAutocaptcha img contentType = Inr (ascii ''wxyz'')"

text \<open>
  A site whose first response is a 502 (axios rejects with its standard
  message and the status) and which answers every later request.
\<close>

definition badGateway :: thrown where
  "badGateway =
     \<lparr>err_message = ascii ''Request failed with status code 502'',
      err_status = Some 502, err_code = Some (ascii ''ERR_BAD_RESPONSE'')\<rparr>"

definition flakySite :: "nat \<Rightarrow> request \<Rightarrow> (thrown + reply) \<times> set_cookie list" where
  "flakySite k req = (if k = 0 then (Inl badGateway, []) else (Inr okReply, []))"

definition flakyEnv :: "stored_cookie list env" where
  "flakyEnv =
     \<lparr>env_site = flakySite, env_newJar = [], env_getCookies = jar_getCookies,
      env_setCookie = jar_setCookie, env_recognize = sampleOcr,
      env_autocaptcha = sampleAutocaptcha, env_defaultMethod = Tesseract,
      env_select = noContainer, env_now = ascii ''2024-02-01T03:30:00.000Z''\<rparr>"






definition manualOptions :: LookupOptions where
  "manualOptions = \<lparr>captchaText = Some (ascii ''abcd''), saveCaptcha = None\<rparr>"

definition noOptions :: LookupOptions where
  "noOptions = \<lparr>captchaText = None, saveCaptcha = None\<rparr>"

text \<open>An OCR engine that reads \<open>O0I1\<close> with the given confidence.\<close>

definition ocrReads :: "real \<Rightarrow> jstring \<Rightarrow> thrown + jstring \<times> real" where
  "ocrReads confidence img = Inr (ascii ''O0I1'', confidence)"

text \<open>Requests as they appear in the list \<open>sent\<close>.\<close>

definition getRequest :: "jstring \<Rightarrow> (jstring \<times> jstring) list \<Rightarrow> request" where
  "getRequest url cookies =
     \<lparr>req_post = False, req_url = url, req_form = [], req_cookies = cookies\<rparr>"

definition postRequest ::
  "jstring \<Rightarrow> (jstring \<times> jstring) list \<Rightarrow> (jstring \<times> jstring) list \<Rightarrow> request" where
  "postRequest url form cookies =
     \<lparr>req_post = True, req_url = url, req_form = form, req_cookies = cookies\<rparr>"

text \<open>The request of \<open>initSession\<close>.\<close>

definition baseRequest :: "(jstring \<times> jstring) list \<Rightarrow> request" where
  "baseRequest cookies = getRequest csgt_baseUrl cookies"

text \<open>
  A lookup with a manual captcha on a new service, against the site whose
  first response is a 502.
\<close>

definition staleRun :: "(thrown + LookupResult \<times> retry_vars) \<times> stored_cookie list client" where
  "staleRun =
     service_lookupByPlate flakyEnv (ascii ''51K-671.79'') (ascii ''1'') manualOptions
       (newViolationService flakyEnv)"



section \<open>Properties of the diff\<close>

lemma decimal_nonempty: "decimal n \<noteq> []"
  by (subst decimal.simps) simp

lemma decimal_digits: "c \<in> set (decimal n) \<Longrightarrow> 48 \<le> c \<and> c \<le> 57"
proof (induction n rule: decimal.induct)
  case (1 n)
  show ?case
  proof (cases "n < 10")
    case True
    with "1.prems" show ?thesis by (subst (asm) decimal.simps) simp
  next
    case False
    from "1.prems" False have "c \<in> set (decimal (n div 10)) \<or> c = 48 + n mod 10"
      by (subst (asm) decimal.simps) auto
    with "1.IH" False show ?thesis by auto
  qed
qed

lemma decimal_inj: "decimal m = decimal n \<Longrightarrow> m = n"
proof (induction m arbitrary: n rule: decimal.induct)
  case (1 m)
  show ?case
  proof (cases "m < 10")
    case m: True
    show ?thesis
    proof (cases "n < 10")
      case True
      with m "1.prems" show ?thesis by (simp add: decimal.simps)
    next
      case False
      have "decimal n = decimal (n div 10) @ [48 + n mod 10]"
        using False by (subst decimal.simps) simp
      moreover have "decimal m = [48 + m]" using m by (subst decimal.simps) simp
      ultimately show ?thesis using "1.prems" decimal_nonempty [of "n div 10"] by simp
    qed
  next
    case m: False
    have dm: "decimal m = decimal (m div 10) @ [48 + m mod 10]"
      using m by (subst decimal.simps) simp
    show ?thesis
    proof (cases "n < 10")
      case True
      then have "decimal n = [48 + n]" by (subst decimal.simps) simp
      with dm "1.prems" decimal_nonempty [of "m div 10"] show ?thesis by simp
    next
      case False
      then have dn: "decimal n = decimal (n div 10) @ [48 + n mod 10]"
        by (subst decimal.simps) simp
      from dm dn "1.prems" have "decimal (m div 10) = decimal (n div 10)"
        and md: "m mod 10 = n mod 10"
        by simp_all
      with "1.IH" m have "m div 10 = n div 10" by blast
      with md show ?thesis by (metis div_mult_mod_eq)
    qed
  qed
qed

lemma num_or_empty_inj: "num_or_empty x = num_or_empty y \<longleftrightarrow> number_read x = number_read y"
  using decimal_inj
  by (auto simp: num_or_empty_def number_read_def decimal_nonempty decimal_nonempty [symmetric]
      split: option.splits)

lemma num_or_empty_no_dash: "45 \<notin> set (num_or_empty x)"
  using decimal_digits [of 45] by (auto simp: num_or_empty_def split: option.splits)

lemma split_at_first:
  "x \<notin> set xs \<Longrightarrow> x \<notin> set xs' \<Longrightarrow>
   xs @ x # ys = xs' @ x # ys' \<longleftrightarrow> xs = xs' \<and> ys = ys'"
proof (induction xs arbitrary: xs')
  case Nil
  then show ?case by (cases xs') auto
next
  case (Cons a xs)
  then show ?case by (cases xs') auto
qed

lemma Map_has_new: "Map_has (Map_new es) k \<longleftrightarrow> k \<in> fst ` set es"
proof -
  have "\<And>m. (fold (\<lambda>(k, v) m. m(k \<mapsto> v)) es m) k \<noteq> None \<longleftrightarrow> k \<in> fst ` set es \<or> m k \<noteq> None"
    by (induction es) (auto split: prod.splits)
  then show ?thesis by (simp add: Map_has_def Map_new_def)
qed

text \<open>
  C3, as the claim states it, fails: the key is built from \<open>violationNumber\<close>.
  Two records of the same real-world violation that differ only in their
  sequence number get different keys, and two records that differ only in
  location and description get the same key.
\<close>

theorem getViolationKey_uses_violationNumber:
  "getViolationKey (sampleViolation\<lparr>violationNumber := Some 2\<rparr>) \<noteq> getViolationKey sampleViolation
   \<and> getViolationKey (sampleViolation\<lparr>location := Some (ascii ''QL5''), violation := None\<rparr>)
       = getViolationKey sampleViolation"
  by (simp add: getViolationKey_def sampleViolation_def emptyViolation_def num_or_empty_def
      decimal.simps)

text \<open>
  C3 (amended): the diff key is the text \<open><violationNumber>-<violationTime>\<close>,
  each part empty when the field is missing (or the number is 0). Two
  violations have the same key exactly when they agree on the sequence number
  and on the violation time; no other field (location, description, ...) takes
  part.
\<close>

theorem getViolationKey_eq_iff:
  "getViolationKey v = getViolationKey w \<longleftrightarrow>
     number_read (violationNumber v) = number_read (violationNumber w)
     \<and> str_or_empty (violationTime v) = str_or_empty (violationTime w)"
  unfolding getViolationKey_def ascii_def
  using split_at_first [OF num_or_empty_no_dash [of "violationNumber v"]
      num_or_empty_no_dash [of "violationNumber w"]]
  by (simp add: num_or_empty_inj)

text \<open>
  C4: for every previous list \<open>A\<close> and current list \<open>B\<close>, the added violations
  are the members of \<open>B\<close> whose key is not a key of \<open>A\<close>, the removed ones the
  members of \<open>A\<close> whose key is not a key of \<open>B\<close> (so, on keys, added is
  \<open>B \ A\<close> and removed is \<open>A \ B\<close>), and \<open>hasChanges\<close> holds exactly when one
  of the two is non-empty.
\<close>

theorem compareViolations_set_difference:
  "newViolations (compareViolations A B)
     = filter (\<lambda>v. getViolationKey v \<notin> getViolationKey ` set A) B
   \<and> removedViolations (compareViolations A B)
     = filter (\<lambda>v. getViolationKey v \<notin> getViolationKey ` set B) A
   \<and> getViolationKey ` set (newViolations (compareViolations A B))
     = getViolationKey ` set B - getViolationKey ` set A
   \<and> getViolationKey ` set (removedViolations (compareViolations A B))
     = getViolationKey ` set A - getViolationKey ` set B
   \<and> hasChanges (compareViolations A B)
     = (newViolations (compareViolations A B) \<noteq> [] \<or> removedViolations (compareViolations A B) \<noteq> [])"
  by (auto simp: compareViolations_def Let_def Map_has_new image_image)

text \<open>
  C5: when the job has no history row, the comparison of a successful lookup
  reports every current violation as new, in the order of the lookup, and no
  removed violation; this holds for every current list, the non-empty ones in
  particular.
\<close>

theorem first_run_all_new:
  "stmt_get job = Inr None \<Longrightarrow> res_data cur = Some d \<Longrightarrow> data_violations d = Some vs \<Longrightarrow>
   newViolations (compareWithPreviousLookup stmt_get JSON_parse job cur) = vs
   \<and> removedViolations (compareWithPreviousLookup stmt_get JSON_parse job cur) = []
   \<and> hasChanges (compareWithPreviousLookup stmt_get JSON_parse job cur)"
  by (simp add: compareWithPreviousLookup_def getLatestLookupHistory_def allNew_def
      violations_or_empty_def)

theorem first_run_all_new_witness:
  "newViolations
     (compareWithPreviousLookup (\<lambda>job. Inr None) (\<lambda>text. Inr []) 7
        \<lparr>res_status = StatusOk, res_message = None,
         res_data = Some \<lparr>data_plate = ascii ''51K67179'', data_vehicleType = ascii ''1'',
           data_captcha = None, data_violations = Some [sampleViolation],
           data_totalViolations = Some 1, data_totalPaidViolations = Some 0,
           data_totalUnpaidViolations = Some 0, data_lookupTime = None, data_source = None,
           data_totalRetryCaptcha = Some 0\<rparr>\<rparr>) = [sampleViolation]"
  using first_run_all_new [of "\<lambda>job. Inr None" 7 _ _ "[sampleViolation]" "\<lambda>text. Inr []"]
  by simp

theorem compareViolations_set_difference_witness:
  "newViolations (compareViolations [sampleViolation] [unpaidViolation]) = [unpaidViolation]
   \<and> removedViolations (compareViolations [sampleViolation] [unpaidViolation]) = [sampleViolation]
   \<and> hasChanges (compareViolations [sampleViolation] [unpaidViolation])"
  using compareViolations_set_difference [of "[sampleViolation]" "[unpaidViolation]"]
  by (simp add: getViolationKey_def sampleViolation_def unpaidViolation_def emptyViolation_def
      num_or_empty_def decimal.simps)

section \<open>Properties of the result extractor\<close>











lemma substring_sublist: "sublist (substring s a b) s"
proof -
  have "\<And>n m. sublist (take n (drop m s)) s"
  proof -
    fix n m
    have "s = take m s @ take n (drop m s) @ drop n (drop m s)"
      by (simp only: append_take_drop_id)
    then show "sublist (take n (drop m s)) s" unfolding sublist_def by blast
  qed
  then show ?thesis by (simp add: substring_def Let_def)
qed

lemma substring_length: "a \<le> b \<Longrightarrow> length (substring s a b) \<le> nat (b - a)"
  by (auto simp: substring_def Let_def min_def max_def)

lemma startsWith_length: "startsWith s p \<Longrightarrow> length p \<le> length s"
  by (induction s p rule: startsWith.induct) simp_all

lemma indexOf_bounds:
  "indexOf s p = - 1 \<or> (0 \<le> indexOf s p \<and> nat (indexOf s p) + length p \<le> length s)"
proof (induction s)
  case Nil
  then show ?case by simp
next
  case (Cons c cs)
  show ?case
  proof (cases "startsWith (c # cs) p")
    case True
    then show ?thesis using startsWith_length [of "c # cs" p] by simp
  next
    case False
    then show ?thesis using Cons by (auto simp: Let_def nat_add_distrib)
  qed
qed

lemma substring_500_nonempty:
  assumes "s \<noteq> []" and "a = - 1 \<or> (0 \<le> a \<and> nat a < length s)"
  shows "substring s a (a + 500) \<noteq> []"
proof -
  have n: "0 < int (length s)" using assms(1) by simp
  from assms(2) show ?thesis
  proof
    assume a: "a = - 1"
    have "substring s a (a + 500) = take (nat (min 499 (int (length s)))) s"
      using n by (simp add: substring_def Let_def a min_def max_def)
    then show ?thesis using assms(1) n by (simp add: min_def)
  next
    assume a: "0 \<le> a \<and> nat a < length s"
    then have lt: "a < int (length s)" by linarith
    have "substring s a (a + 500)
            = take (nat (min (a + 500) (int (length s)) - a)) (drop (nat a) s)"
      using a lt by (simp add: substring_def Let_def min_def max_def)
    moreover have "0 < nat (min (a + 500) (int (length s)) - a)"
      using a lt by (simp add: min_def)
    moreover have "drop (nat a) s \<noteq> []" using a by simp
    ultimately show ?thesis by simp
  qed
qed

text \<open>The preview of the fallback is never empty: a page that holds the
  police-unit phrase is not empty, and the excerpt starts inside it.\<close>

lemma preview_nonempty:
  assumes "str_includes html lit_doi_csgt"
  shows "substring html (indexOf html lit_bien_kiem_soat)
           (indexOf html lit_bien_kiem_soat + 500) \<noteq> []"
proof -
  have ne: "html \<noteq> []" using assms by (auto simp: lit_doi_csgt_def)
  have len: "length lit_bien_kiem_soat = 14" by (simp add: lit_bien_kiem_soat_def)
  from indexOf_bounds [of html lit_bien_kiem_soat] len
  have "indexOf html lit_bien_kiem_soat = - 1
        \<or> (0 \<le> indexOf html lit_bien_kiem_soat
           \<and> nat (indexOf html lit_bien_kiem_soat) < length html)"
    by auto
  with ne show ?thesis by (rule substring_500_nonempty)
qed

text \<open>
  C10: when the container markup yields no record, \<open>parseResultHtml\<close> returns
  the empty list exactly when the page lacks the text \<open>Doi CSGT\<close> (with its
  diacritics); otherwise it returns one fabricated record: empty plate,
  \<open>violationNumber\<close> 0, a diagnostic message, and as \<open>rawPreview\<close> the
  excerpt \<open>html.substring(i, i + 500)\<close> of the page, where \<open>i\<close> is the index of
  the plate label in the page (\<open>-1\<close> when it is absent, which gives the first
  499 code units). The excerpt is a non-empty contiguous piece of the page of
  at most 500 code units.
\<close>

theorem parseResultHtml_fallback:
  assumes "parseContainer (select html) = []"
  shows "(parseResultHtml select html = []) = (\<not> str_includes html lit_doi_csgt)
       \<and> (parseResultHtml select html \<noteq> [] \<longrightarrow>
            parseResultHtml select html =
              [emptyViolation\<lparr>plate := Some [], violationNumber := Some 0,
                 message := Some (ascii
                   ''Violation found - need to parse HTML structure in more detail''),
                 rawPreview := Some (substring html (indexOf html lit_bien_kiem_soat)
                                       (indexOf html lit_bien_kiem_soat + 500))\<rparr>]
            \<and> substring html (indexOf html lit_bien_kiem_soat)
                 (indexOf html lit_bien_kiem_soat + 500) \<noteq> []
            \<and> sublist (substring html (indexOf html lit_bien_kiem_soat)
                         (indexOf html lit_bien_kiem_soat + 500)) html
            \<and> length (substring html (indexOf html lit_bien_kiem_soat)
                        (indexOf html lit_bien_kiem_soat + 500)) \<le> 500)"
proof (cases "str_includes html lit_doi_csgt")
  case True
  let ?e = "substring html (indexOf html lit_bien_kiem_soat)
              (indexOf html lit_bien_kiem_soat + 500)"
  have eq: "parseResultHtml select html =
              [emptyViolation\<lparr>plate := Some [], violationNumber := Some 0,
                 message := Some (ascii
                   ''Violation found - need to parse HTML structure in more detail''),
                 rawPreview := Some ?e\<rparr>]"
    using assms True by (simp add: parseResultHtml_def fallbackViolation_def)
  have sub: "sublist ?e html" by (rule substring_sublist)
  have len: "length ?e \<le> 500"
    using substring_length [of "indexOf html lit_bien_kiem_soat"
        "indexOf html lit_bien_kiem_soat + 500" html]
    by simp
  have ne: "?e \<noteq> []" using True by (rule preview_nonempty)
  show ?thesis
  proof (intro conjI impI)
    show "(parseResultHtml select html = []) = (\<not> str_includes html lit_doi_csgt)"
      using True by (simp only: eq) simp
    show "parseResultHtml select html =
              [emptyViolation\<lparr>plate := Some [], violationNumber := Some 0,
                 message := Some (ascii
                   ''Violation found - need to parse HTML structure in more detail''),
                 rawPreview := Some ?e\<rparr>]"
      by (rule eq)
    show "?e \<noteq> []" by (rule ne)
    show "sublist ?e html" by (rule sub)
    show "length ?e \<le> 500" by (rule len)
  qed
next
  case False
  then have "parseResultHtml select html = []"
    using assms by (simp add: parseResultHtml_def)
  with False show ?thesis by simp
qed

lemma sample_page_preview:
  "substring (ascii ''<p>'' @ lit_doi_csgt @ ascii '' so 1</p>'')
     (indexOf (ascii ''<p>'' @ lit_doi_csgt @ ascii '' so 1</p>'') lit_bien_kiem_soat)
     (indexOf (ascii ''<p>'' @ lit_doi_csgt @ ascii '' so 1</p>'') lit_bien_kiem_soat + 500)
   = ascii ''<p>'' @ lit_doi_csgt @ ascii '' so 1</p>''"
  by (simp add: substring_def lit_doi_csgt_def lit_bien_kiem_soat_def ascii_def Let_def)

theorem parseResultHtml_fallback_witness:
  "map rawPreview (parseResultHtml noContainer (ascii ''<p>'' @ lit_doi_csgt @ ascii '' so 1</p>''))
     = [Some (ascii ''<p>'' @ lit_doi_csgt @ ascii '' so 1</p>'')]"
proof -
  have a: "parseContainer (noContainer (ascii ''<p>'' @ lit_doi_csgt @ ascii '' so 1</p>'')) = []"
    by (simp add: noContainer_def parseContainer_def)
  have b: "str_includes (ascii ''<p>'' @ lit_doi_csgt @ ascii '' so 1</p>'') lit_doi_csgt"
    by (simp add: lit_doi_csgt_def ascii_def)
  note fb = parseResultHtml_fallback
         [of noContainer "ascii ''<p>'' @ lit_doi_csgt @ ascii '' so 1</p>''", OF a]
  from fb b
  have ne: "parseResultHtml noContainer (ascii ''<p>'' @ lit_doi_csgt @ ascii '' so 1</p>'') \<noteq> []"
    by blast
  from fb [THEN conjunct2, rule_format, OF ne, THEN conjunct1] show ?thesis
    by (simp add: sample_page_preview)
qed

section \<open>Properties of the captcha-solving adapter\<close>

lemma ascii_length: "length (ascii s) = length s"
  by (simp add: ascii_def)

lemma cleaned_O0I1: "filter (\<lambda>c. \<not> isSpace c) (trim (ascii ''O0I1'')) = ascii ''O0I1''"
  by (simp add: trim_def isSpace_def ascii_def)

lemma corrected_O0I1: "map correction (ascii ''O0I1'') = ascii ''0OIl''"
  by (simp add: correction_def ascii_def)

lemma O0I1_changed: "ascii ''0OIl'' \<noteq> ascii ''O0I1'' \<and> ascii ''O0I1'' \<noteq> []"
  by (simp add: ascii_def)

text \<open>
  C8, as the claim states it, fails in its second half. With the raw text
  \<open>O0I1\<close> and a confidence of 25 the corrected text \<open>0OIl\<close> is returned, and
  that is all the caller receives: the same value as with a confidence of 40,
  which is not low. The low confidence appears in the console output only.
\<close>

theorem low_confidence_not_surfaced:
  "fst (solveWithTesseract (ocrReads 25) [] (ascii ''image/png'')) = Inr (ascii ''0OIl'')
   \<and> fst (solveWithTesseract (ocrReads 40) [] (ascii ''image/png'')) = Inr (ascii ''0OIl'')
   \<and> snd (solveWithTesseract (ocrReads 25) [] (ascii ''image/png'')) = [WarnLowConfidence 25]"
  using O0I1_changed
  by (simp add: solveWithTesseract_def ocrReads_def Let_def cleaned_O0I1 corrected_O0I1
      ascii_length)

text \<open>
  C8 (amended): when the OCR engine reports a confidence below 30 for a text
  that is not blank, the adapter returns the text with the correction table
  applied to every character and writes a low-confidence warning to the
  console; the returned value is the same for every confidence below 50, so it
  carries no low-confidence signal.
\<close>

theorem low_confidence_only_logged:
  assumes "recognize img = Inr (text, confidence)" and "confidence < 30"
    and "filter (\<lambda>c. \<not> isSpace c) (trim text) \<noteq> []"
  shows "fst (solveWithTesseract recognize img ct)
           = Inr (map correction (filter (\<lambda>c. \<not> isSpace c) (trim text)))
       \<and> WarnLowConfidence confidence \<in> set (snd (solveWithTesseract recognize img ct))
       \<and> (\<forall>recognize' confidence'.
             recognize' img = Inr (text, confidence') \<and> confidence' < 50 \<longrightarrow>
             fst (solveWithTesseract recognize' img ct)
               = fst (solveWithTesseract recognize img ct))"
  using assms by (auto simp: solveWithTesseract_def Let_def)

theorem low_confidence_only_logged_witness:
  "fst (solveWithTesseract (ocrReads 25) [] (ascii ''image/png'')) = Inr (ascii ''0OIl'')
   \<and> ascii ''0OIl'' \<noteq> ascii ''O0I1''"
proof -
  have r: "ocrReads 25 [] = Inr (ascii ''O0I1'', 25)" by (simp add: ocrReads_def)
  have c: "(25::real) < 30" by simp
  have n: "filter (\<lambda>c. \<not> isSpace c) (trim (ascii ''O0I1'')) \<noteq> []"
    using O0I1_changed by (simp add: cleaned_O0I1)
  from low_confidence_only_logged
         [of "ocrReads 25" "[]" "ascii ''O0I1''" 25 "ascii ''image/png''", OF r c n] O0I1_changed
  show ?thesis by (simp add: cleaned_O0I1 corrected_O0I1)
qed

section \<open>Properties of the retry orchestrator\<close>

lemma se_nonempty: "str_includes m (ascii ''Server error'') \<Longrightarrow> m \<noteq> []"
  by (auto simp: ascii_def)

lemma se_retryable:
  "str_includes (err_message e) (ascii ''Server error'') \<Longrightarrow> isRetryableError e \<and> clearsCaptcha e"
  by (simp add: isRetryableError_def clearsCaptcha_def)

lemma str_includes_append: "str_includes ys p \<Longrightarrow> str_includes (xs @ ys) p"
  by (induction xs) (auto simp: neq_Nil_conv)

lemma serverError_classified:
  "str_includes (err_message (serverError st)) (ascii ''Server error'')"
proof -
  have "str_includes (ascii '' - Server error. Please try again later.'') (ascii ''Server error'')"
    by (simp add: ascii_def)
  then show ?thesis by (simp add: serverError_def Error_def str_includes_append)
qed

text \<open>The repository's \<open>catch\<close> blocks turn a response of status 500 or more
  into such an error.\<close>

lemma classify_5xx:
  "500 \<le> st \<Longrightarrow> classify \<lparr>err_message = m, err_status = Some st, err_code = c\<rparr> = serverError st"
  by (simp add: classify_def serverError_def)

text \<open>The loop on the stub that always fails with a \<open>Server error\<close> message,
  started at the iteration \<open>attempt\<close> with \<open>n\<close> retries left.\<close>

lemma failing_loop:
  assumes se: "\<forall>j. str_includes (err_message (errs j)) (ascii ''Server error'')"
  shows "attempt + n = maxRetries + 1 \<Longrightarrow>
    (\<exists>rv'. retry_loop (failingRepo errs) p v maxRetries attempt rv k
            = (errorResult p v rv', rv', k + n + 1)
       \<and> lastError rv' = Some (errs (k + n))
       \<and> totalRetryCaptcha rv' = totalRetryCaptcha rv + n
       \<and> length (waits rv') = length (waits rv) + n)"
proof (induction n arbitrary: attempt rv k)
  case 0
  then have a: "attempt = maxRetries + 1" by simp
  show ?case
    by (subst retry_loop.simps) (auto simp add: a failingRepo_def Let_def)
next
  case (Suc n)
  then have a: "attempt \<le> maxRetries" "attempt \<le> maxRetries + 1" by simp_all
  from Suc.prems have nxt: "(attempt + 1) + n = maxRetries + 1" by simp
  let ?rv3 = "rv\<lparr>lastError := Some (errs k), waits := waits rv @ [attempt * 2000],
               options_now := (options_now rv)\<lparr>captchaText := None\<rparr>,
               totalRetryCaptcha := totalRetryCaptcha rv + 1\<rparr>"
  have step: "retry_loop (failingRepo errs) p v maxRetries attempt rv k
      = retry_loop (failingRepo errs) p v maxRetries (attempt + 1) ?rv3 (Suc k)"
    using a se_retryable [of "errs k"] se
    by (subst retry_loop.simps) (simp add: failingRepo_def Let_def)
  from Suc.IH [OF nxt, of ?rv3 "Suc k"] show ?case
    unfolding step by simp
qed

text \<open>
  C2: against a repository that fails every call with an error whose message
  is a \<open>Server error\<close> message (what the repository throws for a status of 500
  or more), a lookup call, which runs with \<open>maxRetries = 5\<close>, calls the
  repository exactly 6 times and returns a result of status \<open>error\<close> whose
  message is the message of the sixth failure and whose
  \<open>data.totalRetryCaptcha\<close> is 5; it has waited 5 times.
\<close>

theorem retry_exhaustion:
  assumes "\<forall>k. str_includes (err_message (errs k)) (ascii ''Server error'')"
    and "p \<noteq> []" and "vt \<in> set validVehicleTypes"
  shows "\<exists>res rv d. lookupByPlate (failingRepo errs) now p vt opts 0 = (Inr (res, rv), 6)
           \<and> res_status res = StatusError
           \<and> res_message res = Some (err_message (errs 5))
           \<and> res_data res = Some d \<and> data_totalRetryCaptcha d = Some 5
           \<and> length (waits rv) = 5"
proof -
  let ?cp = "toUpperCase (filter (\<lambda>c. \<not> (isSpace c \<or> c = 45)) p)"
  let ?rv0 = "\<lparr>lastError = None, totalRetryCaptcha = 0, options_now = opts, waits = []\<rparr>"
  from failing_loop [OF assms(1), of 1 5 5 ?cp vt ?rv0 0]
  obtain rv' where
    run: "retry_loop (failingRepo errs) ?cp vt 5 1 ?rv0 0 = (errorResult ?cp vt rv', rv', 6)"
    and le: "lastError rv' = Some (errs 5)" and tot: "totalRetryCaptcha rv' = 5"
    and w: "length (waits rv') = 5"
    by auto
  have vt: "vt \<noteq> []" using assms(3) by (auto simp: validVehicleTypes_def ascii_def)
  have msg: "err_message (errs 5) \<noteq> []" using assms(1) se_nonempty by blast
  have "lookupByPlate (failingRepo errs) now p vt opts 0 = (Inr (errorResult ?cp vt rv', rv'), 6)"
    using assms(2,3) vt run by (simp add: lookupByPlate_def lookupWithRetry_def errorResult_def)
  then show ?thesis
    using le tot w msg by (simp add: errorResult_def)
qed

lemma valid_one: "ascii ''1'' \<in> set validVehicleTypes \<and> ascii ''1'' \<noteq> []"
  by (simp add: validVehicleTypes_def ascii_def)

theorem retry_exhaustion_witness:
  "snd (lookupByPlate (failingRepo (\<lambda>k. serverError (500 + k))) [] (ascii ''51K-671.79'')
          (ascii ''1'') noOptions 0) = 6"
proof -
  have se: "\<forall>k. str_includes (err_message (serverError (500 + k))) (ascii ''Server error'')"
    using serverError_classified by blast
  have ne: "ascii ''51K-671.79'' \<noteq> []" by (simp add: ascii_def)
  have ok: "ascii ''1'' \<in> set validVehicleTypes" using valid_one by simp
  from retry_exhaustion [OF se ne ok, of "[]" noOptions] show ?thesis by auto
qed

text \<open>
  C7: a lookup with a vehicle type other than \<open>1\<close>, \<open>2\<close>, \<open>3\<close> throws an
  invalid-input error at once, whatever the plate; the repository is not
  called (its state, which for the real repository holds the list of the
  requests made, is unchanged), so there is no network call and no retry.
\<close>

theorem invalid_vehicleType_rejected:
  assumes "vt \<notin> set validVehicleTypes"
  shows "lookupByPlate repo now p vt opts s =
     (Inl (Error (if p = [] \<or> vt = [] then ascii ''Plate and vehicleType are required''
                  else ascii
       ''Invalid vehicle type. Must be 1 (Car), 2 (Motorcycle), or 3 (Electric bicycle)'')),
      s)"
  using assms by (simp add: lookupByPlate_def)

theorem invalid_vehicleType_rejected_witness:
  "sent (snd (service_lookupByPlate flakyEnv (ascii ''51K-671.79'') (ascii ''9'') noOptions
                (newViolationService flakyEnv))) = []"
  using invalid_vehicleType_rejected [of "ascii ''9''" "lookupViolations flakyEnv"
      "env_now flakyEnv" "ascii ''51K-671.79''" noOptions "newViolationService flakyEnv"]
  by (simp add: service_lookupByPlate_def validVehicleTypes_def ascii_def
      newViolationService_def createHttpClient_def)

section \<open>The forced refresh on a retry\<close>

lemma empty_page: "parseResultHtml noContainer (ascii ''<html></html>'') = []"
  by (simp add: parseResultHtml_def noContainer_def parseContainer_def lit_doi_csgt_def
      ascii_def)

lemma empty_jar: "jar_getCookies [] url = []"
  by (simp add: jar_getCookies_def)

lemma flaky_parts:
  "env_site flakyEnv = flakySite \<and> env_newJar flakyEnv = []
   \<and> env_getCookies flakyEnv = jar_getCookies \<and> env_setCookie flakyEnv = jar_setCookie
   \<and> env_select flakyEnv = noContainer"
  by (simp add: flakyEnv_def)

lemma flaky_attempt1:
  "lookupViolations flakyEnv p v manualOptions False (createHttpClient flakyEnv) =
     (Inl badGateway, \<lparr>jar = [], sent = [baseRequest []]\<rparr>)"
  by (simp add: lookupViolations_def initSession_def http_request_def flaky_parts empty_jar
      flakySite_def createHttpClient_def Let_def baseRequest_def getRequest_def)

lemma badGateway_retried: "isRetryableError badGateway \<and> \<not> clearsCaptcha badGateway"
  by (simp add: isRetryableError_def clearsCaptcha_def badGateway_def ascii_def)

lemma flaky_attempt2:
  "lookupViolations flakyEnv p v manualOptions True \<lparr>jar = [], sent = [baseRequest []]\<rparr> =
    (Inr \<lparr>res_status = StatusOk, res_message = None,
          res_data = Some
            \<lparr>data_plate = p, data_vehicleType = v, data_captcha = Some (ascii ''abcd''),
             data_violations = Some [], data_totalViolations = Some 0,
             data_totalPaidViolations = Some 0, data_totalUnpaidViolations = Some 0,
             data_lookupTime = None, data_source = None, data_totalRetryCaptcha = None\<rparr>\<rparr>,
     \<lparr>jar = [],
      sent = [baseRequest [], baseRequest [], getRequest csgt_captchaEndpoint [],
              postRequest csgt_ajaxValidateUrl (createFormData p v (ascii ''abcd'')) [],
              getRequest csgt_lookupUrl []]\<rparr>)"
  by (simp add: lookupViolations_def initSession_def http_request_def flaky_parts empty_jar
      flakySite_def Let_def obtainCaptcha_def fetchCaptchaImage_def manualOptions_def
      repo_solveCaptcha_def okReply_def ascii_def [of "''abcd''"] validateCaptchaAjax_def
      fetchLookupResult_def empty_page calculateViolationCounts_def baseRequest_def
      getRequest_def postRequest_def)

lemma cleanPlate_51K:
  "toUpperCase (filter (\<lambda>c. \<not> (isSpace c \<or> c = 45)) (ascii ''51K-671.79''))
     = ascii ''51K671.79''"
  by (simp add: toUpperCase_def upper_units_def upper_unit_def isSpace_def ascii_def)

lemma now_flaky: "env_now flakyEnv = ascii ''2024-02-01T03:30:00.000Z''"
  by (simp add: flakyEnv_def)

lemma staleRun_eq:
  "staleRun =
   (Inr (\<lparr>res_status = StatusOk, res_message = None,
          res_data = Some
            \<lparr>data_plate = ascii ''51K671.79'', data_vehicleType = ascii ''1'',
             data_captcha = Some (ascii ''abcd''),
             data_violations = Some [], data_totalViolations = Some 0,
             data_totalPaidViolations = Some 0, data_totalUnpaidViolations = Some 0,
             data_lookupTime = Some (ascii ''2024-02-01T03:30:00.000Z''),
             data_source = Some (ascii ''csgt.vn''),
             data_totalRetryCaptcha = Some 0\<rparr>\<rparr>,
         \<lparr>lastError = Some badGateway, totalRetryCaptcha = 0, options_now = manualOptions,
          waits = [2000]\<rparr>),
    \<lparr>jar = [],
     sent = [baseRequest [], baseRequest [], getRequest csgt_captchaEndpoint [],
             postRequest csgt_ajaxValidateUrl
               (createFormData (ascii ''51K671.79'') (ascii ''1'') (ascii ''abcd'')) [],
             getRequest csgt_lookupUrl []]\<rparr>)"
proof -
  have ne: "ascii ''51K-671.79'' \<noteq> []" by (simp add: ascii_def)
  show ?thesis
    unfolding staleRun_def service_lookupByPlate_def lookupByPlate_def lookupWithRetry_def
      cleanPlate_51K newViolationService_def
    using valid_one ne
    apply (simp add: Let_def)
    apply (subst retry_loop.simps)
    apply (simp add: flaky_attempt1 badGateway_retried Let_def)
    apply (subst retry_loop.simps)
    apply (simp add: flaky_attempt2 Let_def attachRetryCount_def now_flaky)
    done
qed

lemma flaky_solver: "repo_solveCaptcha flakyEnv img ct None None = Inr (ascii ''wxyz'')"
  by (simp add: repo_solveCaptcha_def solveCaptcha_def flakyEnv_def solveWithTesseract_def
      sampleOcr_def trim_def isSpace_def ascii_def)

text \<open>
  C1 fails on the code. A caller supplies the manual captcha \<open>abcd\<close>; the
  site's first response is a 502, which axios rejects with the message
  \<open>Request failed with status code 502\<close>. The error is retryable (its message
  contains \<open>502\<close>) but is not among those for which the loop clears
  \<open>options.captchaText\<close>. On attempt 2 the captcha image is fetched (third
  request), yet \<open>solveCaptcha\<close> returns the manual text, and the validation
  request (fourth request) carries \<open>abcd\<close>, not the text \<open>wxyz\<close> that solving
  the fresh image without a manual captcha gives; the options still hold the manual captcha and
  \<open>totalRetryCaptcha\<close> is 0.
\<close>

theorem stale_manual_captcha_survives_retry:
  "map req_url (sent (snd staleRun))
     = [csgt_baseUrl, csgt_baseUrl, csgt_captchaEndpoint, csgt_ajaxValidateUrl, csgt_lookupUrl]
   \<and> req_form (sent (snd staleRun) ! 3)
     = createFormData (ascii ''51K671.79'') (ascii ''1'') (ascii ''abcd'')
   \<and> repo_solveCaptcha flakyEnv (rp_data okReply) (ascii ''image/png'') None None
     = Inr (ascii ''wxyz'')
   \<and> (case fst staleRun of
         Inl err \<Rightarrow> False
       | Inr (res, rv) \<Rightarrow>
           res_status res = StatusOk \<and> lastError rv = Some badGateway \<and> waits rv = [2000]
           \<and> captchaText (options_now rv) = Some (ascii ''abcd'')
           \<and> totalRetryCaptcha rv = 0)"
  by (simp add: staleRun_eq flaky_solver baseRequest_def getRequest_def postRequest_def
      manualOptions_def)

section \<open>The cookie jar across lookups\<close>

























end
